theory Spec2Isabelle
  imports Complex_Main "HOL-Library.Word"
begin

section \<open>Python numerics used by the resize step\<close>

text \<open>
  \<^verbatim>\<open>ratio = max_size / max(image.size)\<close> is Python's true division of two ints and
  \<^verbatim>\<open>int(image.size[0] * ratio)\<close> multiplies an int by a float and truncates. Both
  operations are IEEE-754 binary64 with round-to-nearest, ties-to-even. A non-negative
  float is modelled exactly as a pair \<open>(m, e)\<close> standing for \<open>m * 2 ^ e\<close>, and rounding
  is done with integer division only. Negative numbers, infinities, NaN and subnormals
  cannot arise from the image sizes the code handles and are left out.
\<close>

type_synonym pyfloat = "nat \<times> int"

text \<open>\<open>log2floor n\<close> is the position of the highest set bit of \<open>n\<close>.\<close>

fun log2floor :: "nat \<Rightarrow> nat" where
  "log2floor n = (if n < 2 then 0 else Suc (log2floor (n div 2)))"

declare log2floor.simps [simp del]

text \<open>\<open>ilog p q\<close> is the binary exponent of the fraction \<open>p / q\<close>:
  \<open>2 ^ ilog p q \<le> p / q < 2 ^ (ilog p q + 1)\<close>.\<close>

definition ilog :: "nat \<Rightarrow> nat \<Rightarrow> int" where
  "ilog p q = (if q \<le> p then int (log2floor (p div q))
               else - int (Suc (log2floor ((q - 1) div p))))"

text \<open>Nearest integer to \<open>a / b\<close>, ties to the even neighbour.\<close>

definition rne_div :: "nat \<Rightarrow> nat \<Rightarrow> nat" where
  "rne_div a b = (let q = a div b; r = a mod b
                  in if 2 * r < b then q else if b < 2 * r then q + 1
                     else if even q then q else q + 1)"

text \<open>Multiply the fraction \<open>p / q\<close> by \<open>2 ^ k\<close>, keeping numerator and denominator integral.\<close>

definition scale2 :: "nat \<times> nat \<Rightarrow> int \<Rightarrow> nat \<times> nat" where
  "scale2 pq k = (if 0 \<le> k then (fst pq * 2 ^ nat k, snd pq)
                  else (fst pq, snd pq * 2 ^ nat (- k)))"

text \<open>The binary64 number nearest to \<open>p / q\<close>: a 53-bit significand and its exponent.\<close>

definition round_frac :: "nat \<Rightarrow> nat \<Rightarrow> pyfloat" where
  "round_frac p q =
     (if p = 0 then (0, 0)
      else let e = ilog p q; ab = scale2 (p, q) (52 - e)
           in (rne_div (fst ab) (snd ab), e - 52))"

text \<open>\<^verbatim>\<open>a / b\<close> on ints (correctly rounded). The only call divides by
  \<^verbatim>\<open>max(image.size)\<close> under the guard \<^verbatim>\<open>max(image.size) > max_size\<close>, so the divisor
  is never zero there.\<close>

definition py_truediv :: "nat \<Rightarrow> nat \<Rightarrow> pyfloat" where
  "py_truediv a b = round_frac a b"

text \<open>\<^verbatim>\<open>float(n)\<close>, the implicit conversion of the int operand of \<^verbatim>\<open>int * float\<close>.\<close>

definition py_float :: "nat \<Rightarrow> pyfloat" where
  "py_float n = round_frac n 1"

definition float_mul :: "pyfloat \<Rightarrow> pyfloat \<Rightarrow> pyfloat" where
  "float_mul x y =
     (let pq = scale2 (fst x * fst y, 1) (snd x + snd y) in round_frac (fst pq) (snd pq))"

text \<open>\<^verbatim>\<open>int(x)\<close>: truncation, which is the floor on non-negative floats.\<close>

definition py_int :: "pyfloat \<Rightarrow> nat" where
  "py_int x = (let pq = scale2 (fst x, 1) (snd x) in fst pq div snd pq)"



text \<open>\<^verbatim>\<open>f"{n}"\<close> for a non-negative int: its decimal digits.\<close>

definition digit :: "nat \<Rightarrow> char" where
  "digit d = ''0123456789'' ! d"

fun str_nat :: "nat \<Rightarrow> string" where
  "str_nat n = (if n < 10 then [digit n] else str_nat (n div 10) @ [digit (n mod 10)])"

declare str_nat.simps [simp del]

text \<open>\<^verbatim>\<open>f"{x}"\<close> for an optional string: \<^verbatim>\<open>None\<close> prints as \<^verbatim>\<open>None\<close>.\<close>

definition str_opt :: "string option \<Rightarrow> string" where
  "str_opt x = (case x of None \<Rightarrow> ''None'' | Some s \<Rightarrow> s)"

section \<open>The Pillow operations the service calls\<close>

type_synonym byte = "8 word"
type_synonym bytes = "byte list"

text \<open>Pillow's image modes (\<^verbatim>\<open>image.mode\<close> is one of these strings).\<close>

datatype mode =
    Mode_1 | Mode_L | Mode_P | Mode_RGB | Mode_RGBA | Mode_CMYK | Mode_YCbCr | Mode_LAB
  | Mode_HSV | Mode_I | Mode_F | Mode_LA | Mode_PA | Mode_RGBX | Mode_RGBa | Mode_La
  | Mode_I16 | Mode_I16L | Mode_I16B | Mode_I16N

text \<open>Number of bands of a mode (\<^verbatim>\<open>len(image.getbands())\<close>).\<close>

fun bands :: "mode \<Rightarrow> nat" where
  "bands Mode_RGB = 3"
| "bands Mode_YCbCr = 3"
| "bands Mode_LAB = 3"
| "bands Mode_HSV = 3"
| "bands Mode_RGBA = 4"
| "bands Mode_CMYK = 4"
| "bands Mode_RGBX = 4"
| "bands Mode_RGBa = 4"
| "bands Mode_LA = 2"
| "bands Mode_PA = 2"
| "bands Mode_La = 2"
| "bands _ = 1"

text \<open>The modes that carry a transparency band.\<close>

definition has_alpha :: "mode \<Rightarrow> bool" where
  "has_alpha m = (m \<in> {Mode_RGBA, Mode_LA, Mode_PA, Mode_RGBa, Mode_La})"

text \<open>
  Pixel contents are not computed. They are kept as the term of library operations that
  produced them, so that a result says which operations were applied to which source.
\<close>

text \<open>How a conversion fills the alpha band of its result: with 255 throughout, from the
  alpha band of the source, or from the transparency entry of the source (a colour key or
  per-entry palette alphas, as a PNG \<^verbatim>\<open>tRNS\<close> chunk gives).\<close>

datatype alpha_fill = Alpha_Opaque | Alpha_From_Band | Alpha_From_Transparency

datatype raster =
    Decoded bytes
  | Filled "nat \<times> nat \<times> nat"
  | Resampled raster "nat \<times> nat"
  | Band raster nat
  | Pasted raster raster "raster option"
  | Converted mode "alpha_fill option" raster

record image =
  im_mode :: mode
  im_size :: "nat \<times> nat"
  im_pixels :: raster
  im_transparency :: bool

text \<open>\<open>im_transparency\<close> says whether \<^verbatim>\<open>image.info\<close> has a \<^verbatim>\<open>transparency\<close> entry.\<close>

text \<open>
  The parts of the environment whose results depend on data the service does not inspect:
  the decoder behind \<^verbatim>\<open>Image.open\<close> (with the pixel loading it defers), the PNG encoder
  behind \<^verbatim>\<open>image.save(..., format='PNG')\<close>, the table of conversions
  \<^verbatim>\<open>image.convert\<close> supports, whether a conversion carries the transparency entry over
  (Pillow keeps, rewrites or drops it depending on the modes and on the form of the entry),
  and \<^verbatim>\<open>rembg.remove\<close>. A raised exception is
  \<open>Inl\<close> of its \<^verbatim>\<open>str(e)\<close>, the only part of it the service uses.
\<close>

record env =
  image_open :: "bytes \<Rightarrow> string + image"
  save_png :: "image \<Rightarrow> string + bytes"
  convertible :: "mode \<Rightarrow> mode \<Rightarrow> bool"
  keeps_transparency :: "mode \<Rightarrow> mode \<Rightarrow> bool"
  rembg_remove :: "bytes \<Rightarrow> string + bytes"
  rembg_available :: bool

definition and_then :: "string + 'a \<Rightarrow> ('a \<Rightarrow> string + 'b) \<Rightarrow> string + 'b" where
  "and_then r f = (case r of Inl e \<Rightarrow> Inl e | Inr x \<Rightarrow> f x)"

text \<open>\<^verbatim>\<open>Image.new(mode, size, color)\<close>.\<close>

definition Image_new :: "mode \<Rightarrow> nat \<times> nat \<Rightarrow> nat \<times> nat \<times> nat \<Rightarrow> image" where
  "Image_new m sz color = \<lparr>im_mode = m, im_size = sz, im_pixels = Filled color, im_transparency = False\<rparr>"

text \<open>\<^verbatim>\<open>image.resize(size, LANCZOS)\<close>: Pillow raises
  \<^verbatim>\<open>ValueError("height and width must be > 0")\<close> when a requested side is below 1;
  otherwise the result has the requested size and the same mode.\<close>

definition resize :: "image \<Rightarrow> nat \<times> nat \<Rightarrow> string + image" where
  "resize img sz =
     (if fst sz < 1 \<or> snd sz < 1 then Inl ''height and width must be > 0''
      else Inr (img\<lparr>im_size := sz, im_pixels := Resampled (im_pixels img) sz\<rparr>))"

text \<open>\<^verbatim>\<open>image.split()\<close>: one single-band image per band.\<close>

definition Image_split :: "image \<Rightarrow> image list" where
  "Image_split img =
     map (\<lambda>i. \<lparr>im_mode = Mode_L, im_size = im_size img, im_pixels = Band (im_pixels img) i,
               im_transparency = im_transparency img\<rparr>)
       [0 ..< bands (im_mode img)]"

text \<open>\<^verbatim>\<open>xs[i]\<close> for \<open>i \<ge> 0\<close>, raising \<^verbatim>\<open>IndexError\<close> out of range.\<close>

definition index :: "'a list \<Rightarrow> nat \<Rightarrow> string + 'a" where
  "index xs i = (if i < length xs then Inr (xs ! i) else Inl ''tuple index out of range'')"

text \<open>\<^verbatim>\<open>dst.paste(src, mask=mask)\<close> mutates \<open>dst\<close>; the model returns the new \<open>dst\<close>.
  With a mask, each pixel becomes the blend of \<open>src\<close> over \<open>dst\<close> weighted by the mask.\<close>

definition paste :: "image \<Rightarrow> image \<Rightarrow> image option \<Rightarrow> image" where
  "paste dst src mask_im =
     dst\<lparr>im_pixels := Pasted (im_pixels dst) (im_pixels src) (map_option im_pixels mask_im)\<rparr>"

text \<open>\<^verbatim>\<open>image.convert(m)\<close> promotes a transparency entry to an alpha band for these
  pairs of source and target mode (a colour key for the greyscale and RGB sources, the
  palette's alphas for a palette image).\<close>

definition promotes_transparency :: "mode \<Rightarrow> mode \<Rightarrow> bool" where
  "promotes_transparency src m \<longleftrightarrow>
     (src \<in> {Mode_1, Mode_L, Mode_I, Mode_I16} \<and> m \<in> {Mode_LA, Mode_RGBA}) \<or>
     (src = Mode_RGB \<and> m \<in> {Mode_La, Mode_LA, Mode_RGBa, Mode_RGBA}) \<or>
     (src = Mode_P \<and> has_alpha m)"

text \<open>The alpha band of \<^verbatim>\<open>image.convert(m)\<close>: none if \<open>m\<close> has no alpha; the source's
  alpha band if it has one; the promoted transparency entry if there is one; and otherwise
  the constant 255.\<close>

definition conversion_alpha :: "image \<Rightarrow> mode \<Rightarrow> alpha_fill option" where
  "conversion_alpha img m =
     (if \<not> has_alpha m then None
      else if has_alpha (im_mode img) then Some Alpha_From_Band
      else if im_transparency img \<and> promotes_transparency (im_mode img) m
      then Some Alpha_From_Transparency
      else Some Alpha_Opaque)"

text \<open>\<^verbatim>\<open>image.convert(m)\<close>: the library's conversion to mode \<open>m\<close>, raising
  \<^verbatim>\<open>ValueError\<close> for a pair of modes it does not support.\<close>

definition convert :: "env \<Rightarrow> image \<Rightarrow> mode \<Rightarrow> string + image" where
  "convert E img m =
     (if convertible E (im_mode img) m
      then Inr (img\<lparr>im_mode := m,
                   im_pixels := Converted m (conversion_alpha img m) (im_pixels img),
                   im_transparency :=
                     im_transparency img \<and> keeps_transparency E (im_mode img) m\<rparr>)
      else Inl ''conversion not supported'')"

section \<open>model_loader.py\<close>

text \<open>Calls to the logger do not influence any result and are left out, as is the unused
  \<^verbatim>\<open>original_format\<close>.\<close>

datatype exn = HTTPException nat string | RuntimeError string

datatype BackgroundRemover = BackgroundRemover

text \<open>\<^verbatim>\<open>BackgroundRemover.__init__\<close>: fails when rembg is missing, and otherwise runs the
  model once on a 100x100 white image; any failure of that run is re-raised.\<close>

definition BackgroundRemover_init :: "env \<Rightarrow> string + BackgroundRemover" where
  "BackgroundRemover_init E =
     (if \<not> rembg_available E
      then Inl ''rembg library is not installed. Install it with: pip install rembg[new]''
      else and_then (save_png E (Image_new Mode_RGB (100, 100) (255, 255, 255)))
             (\<lambda>test_bytes. and_then (rembg_remove E test_bytes)
               (\<lambda>_. Inr BackgroundRemover)))"

definition max_size :: nat where
  "max_size = 2048"

text \<open>\<^verbatim>\<open>new_size = (int(image.size[0] * ratio), int(image.size[1] * ratio))\<close> with
  \<^verbatim>\<open>ratio = max_size / max(image.size)\<close>.\<close>

definition new_size :: "nat \<times> nat \<Rightarrow> nat \<times> nat" where
  "new_size sz =
     (let ratio = py_truediv max_size (max (fst sz) (snd sz))
      in (py_int (float_mul (py_float (fst sz)) ratio),
          py_int (float_mul (py_float (snd sz)) ratio)))"

text \<open>One side of \<open>new_size\<close>: the side \<open>w\<close> of an image whose longer side is \<open>m\<close>.\<close>

definition new_dim :: "nat \<Rightarrow> nat \<Rightarrow> nat" where
  "new_dim m w = py_int (float_mul (py_float w) (py_truediv max_size m))"

text \<open>Lines 69-75 of \<^verbatim>\<open>remove_background\<close>: resize if too large.\<close>

definition resize_if_large :: "image \<Rightarrow> string + image" where
  "resize_if_large img =
     (if max (fst (im_size img)) (snd (im_size img)) > max_size
      then resize img (new_size (im_size img))
      else Inr img)"

text \<open>Lines 77-85: convert to RGB if needed. The mask expression repeats the test of the
  enclosing branch, as the source does.\<close>

definition to_rgb :: "env \<Rightarrow> image \<Rightarrow> string + image" where
  "to_rgb E img =
     (if im_mode img \<noteq> Mode_RGB then
        if im_mode img = Mode_RGBA then
          and_then
            (if im_mode img = Mode_RGBA
             then and_then (index (Image_split img) 3) (\<lambda>a. Inr (Some a))
             else Inr None)
            (\<lambda>mask_im. Inr (paste (Image_new Mode_RGB (im_size img) (255, 255, 255)) img mask_im))
        else convert E img Mode_RGB
      else Inr img)"

text \<open>Lines 62-85, the image normalizer: decode, bound the size, bring to RGB.\<close>

definition normalize_image :: "env \<Rightarrow> bytes \<Rightarrow> string + image" where
  "normalize_image E image_data =
     and_then (and_then (image_open E image_data) resize_if_large) (to_rgb E)"

text \<open>Lines 87-107, the segmentation adapter: PNG in, model, decode, bring to RGBA, PNG out.\<close>

definition to_rgba :: "env \<Rightarrow> image \<Rightarrow> string + image" where
  "to_rgba E output_image =
     (if im_mode output_image \<noteq> Mode_RGBA then convert E output_image Mode_RGBA
      else Inr output_image)"

definition segment :: "env \<Rightarrow> image \<Rightarrow> string + bytes" where
  "segment E img =
     and_then (save_png E img) (\<lambda>input_bytes.
     and_then (rembg_remove E input_bytes) (\<lambda>output_bytes.
     and_then (image_open E output_bytes) (\<lambda>output_image.
     and_then (to_rgba E output_image) (save_png E))))"

text \<open>\<^verbatim>\<open>BackgroundRemover.remove_background\<close>: the whole body runs under
  \<^verbatim>\<open>except Exception as e: raise RuntimeError(f"Failed to remove background: {str(e)}")\<close>.\<close>

definition BackgroundRemover_remove_background :: "env \<Rightarrow> bytes \<Rightarrow> exn + bytes" where
  "BackgroundRemover_remove_background E image_data =
     (case and_then (normalize_image E image_data) (segment E) of
        Inl e \<Rightarrow> Inl (RuntimeError (''Failed to remove background: '' @ e))
      | Inr result_bytes \<Rightarrow> Inr result_bytes)"

text \<open>\<^verbatim>\<open>BackgroundRemover.preprocess_image\<close>, the unused sibling of the normalizer.\<close>

definition preprocess_image :: "env \<Rightarrow> image \<Rightarrow> string + image" where
  "preprocess_image E img =
     and_then (resize_if_large img)
       (\<lambda>img. if im_mode img \<noteq> Mode_RGB then convert E img Mode_RGB else Inr img)"

section \<open>app.py\<close>

text \<open>The global \<^verbatim>\<open>bg_remover\<close>, and a record of every call the request handler makes
  to \<^verbatim>\<open>bg_remover.remove_background\<close> (the argument of each call, oldest first).\<close>

record app_state =
  bg_remover :: "BackgroundRemover option"
  pipeline_calls :: "bytes list"

definition initial_state :: app_state where
  "initial_state = \<lparr>bg_remover = None, pipeline_calls = []\<rparr>"

text \<open>\<^verbatim>\<open>startup_event\<close> re-raises a failed construction, leaving the global unset.\<close>

definition startup_event :: "env \<Rightarrow> app_state \<Rightarrow> string + app_state" where
  "startup_event E st =
     and_then (BackgroundRemover_init E) (\<lambda>r. Inr (st\<lparr>bg_remover := Some r\<rparr>))"

definition shutdown_event :: "app_state \<Rightarrow> app_state" where
  "shutdown_event st = st\<lparr>bg_remover := None\<rparr>"

datatype json = JString string | JBool bool

text \<open>What a handler hands back to the framework: a returned dict (sent as JSON with
  status 200) or a returned \<^verbatim>\<open>Response\<close> (content, media type, headers; status 200).\<close>

datatype response =
    JSONResponse "(string \<times> json) list"
  | Response bytes string "(string \<times> string) list"

record upload =
  content_type :: "string option"
  filename :: "string option"
  body :: bytes

definition health_check :: "app_state \<Rightarrow> response" where
  "health_check st =
     JSONResponse
       [(''status'', JString ''healthy''),
        (''model_loaded'', JBool (bg_remover st \<noteq> None)),
        (''service'', JString ''u2net-background-removal'')]"

definition allowed_types :: "string option list" where
  "allowed_types = [Some ''image/jpeg'', Some ''image/png'', Some ''image/jpg'']"

text \<open>The \<^verbatim>\<open>try\<close> block of the handler. \<open>elapsed\<close> is the rendering
  \<^verbatim>\<open>f"{processing_time:.2f}"\<close> of the measured wall-clock time.\<close>

definition try_block ::
  "env \<Rightarrow> string \<Rightarrow> app_state \<Rightarrow> upload \<Rightarrow> (exn + response) \<times> app_state" where
  "try_block E elapsed st file =
     (let image_data = body file; max_size = 10 * 1024 * 1024
      in if length image_data > max_size
         then (Inl (HTTPException 400
                 (''File too large. Maximum size is 10MB. Got: ''
                    @ str_nat (length image_data) @ '' bytes'')), st)
         else
           (case BackgroundRemover_remove_background E image_data of
              Inl e \<Rightarrow> Inl e
            | Inr result_png \<Rightarrow>
                Inr (Response result_png ''image/png''
                  [(''Content-Disposition'',
                      ''attachment; filename='' @ [CHR 0x22] @ ''bgremoved.png'' @ [CHR 0x22]),
                   (''X-Processing-Time'', elapsed)]),
            st\<lparr>pipeline_calls := pipeline_calls st @ [image_data]\<rparr>))"

text \<open>The handler of \<^verbatim>\<open>POST /remove-bg\<close>. \<open>Inl\<close> is the exception it raises, \<open>Inr\<close>
  the response it returns.\<close>

definition app_remove_background ::
  "env \<Rightarrow> string \<Rightarrow> app_state \<Rightarrow> upload \<Rightarrow> (exn + response) \<times> app_state" where
  "app_remove_background E elapsed st file =
     (if bg_remover st = None
      then (Inl (HTTPException 503
              ''Background removal service is not available. Model not loaded.''), st)
      else if content_type file \<notin> set allowed_types
      then (Inl (HTTPException 400
              (''Invalid file type. Only JPG and PNG are supported. Got: ''
                 @ str_opt (content_type file))), st)
      else
        (case try_block E elapsed st file of
           (Inl (HTTPException code detail), st') \<Rightarrow> (Inl (HTTPException code detail), st')
         | (Inl (RuntimeError msg), st') \<Rightarrow>
             (Inl (HTTPException 500 (''Failed to process image: '' @ msg)), st')
         | (Inr resp, st') \<Rightarrow> (Inr resp, st')))"

text \<open>The status code the framework sends: 200 for a returned value, the code of a raised
  \<^verbatim>\<open>HTTPException\<close>, 500 for any other exception.\<close>

definition status_code :: "exn + response \<Rightarrow> nat" where
  "status_code r =
     (case r of Inr _ \<Rightarrow> 200 | Inl (HTTPException code _) \<Rightarrow> code | Inl (RuntimeError _) \<Rightarrow> 500)"

section \<open>Contracts of the external libraries\<close>

text \<open>The PNG codec keeps the mode and size of the two kinds of image the service saves:
  what \<^verbatim>\<open>save\<close> wrote for an RGB or RGBA image, \<^verbatim>\<open>Image.open\<close> reads back as an
  image of the same mode and size.\<close>

definition png_roundtrip :: "env \<Rightarrow> bool" where
  "png_roundtrip E \<longleftrightarrow>
     (\<forall>img bs. im_mode img \<in> {Mode_RGB, Mode_RGBA} \<longrightarrow> save_png E img = Inr bs \<longrightarrow>
        (\<exists>img'. image_open E bs = Inr img' \<and> im_mode img' = im_mode img \<and>
                im_size img' = im_size img))"


section \<open>A small concrete environment\<close>

text \<open>
  A stand-in codec used to run the service on concrete inputs: a file is one byte for the
  mode (32 higher when the image has a transparency entry), then the width and the height
  in unary. The stand-in model returns its input; two variants return a fixed file instead.
\<close>

fun mode_tag :: "mode \<Rightarrow> byte" where
  "mode_tag Mode_1 = 2" | "mode_tag Mode_L = 3" | "mode_tag Mode_P = 4"
| "mode_tag Mode_RGB = 5" | "mode_tag Mode_RGBA = 6" | "mode_tag Mode_CMYK = 7"
| "mode_tag Mode_YCbCr = 8" | "mode_tag Mode_LAB = 9" | "mode_tag Mode_HSV = 10"
| "mode_tag Mode_I = 11" | "mode_tag Mode_F = 12" | "mode_tag Mode_LA = 13"
| "mode_tag Mode_PA = 14" | "mode_tag Mode_RGBX = 15" | "mode_tag Mode_RGBa = 16"
| "mode_tag Mode_La = 17" | "mode_tag Mode_I16 = 18" | "mode_tag Mode_I16L = 19"
| "mode_tag Mode_I16B = 20" | "mode_tag Mode_I16N = 21"

definition all_modes :: "mode list" where
  "all_modes =
     [Mode_1, Mode_L, Mode_P, Mode_RGB, Mode_RGBA, Mode_CMYK, Mode_YCbCr, Mode_LAB, Mode_HSV,
      Mode_I, Mode_F, Mode_LA, Mode_PA, Mode_RGBX, Mode_RGBa, Mode_La, Mode_I16, Mode_I16L,
      Mode_I16B, Mode_I16N]"

definition tag_mode :: "byte \<Rightarrow> mode option" where
  "tag_mode t = find (\<lambda>m. mode_tag m = t) all_modes"

definition toy_bytes :: "mode \<Rightarrow> nat \<times> nat \<Rightarrow> bytes" where
  "toy_bytes m sz = mode_tag m # replicate (fst sz) 1 @ 0 # replicate (snd sz) 1"

definition toy_trns_bytes :: "mode \<Rightarrow> nat \<times> nat \<Rightarrow> bytes" where
  "toy_trns_bytes m sz = (mode_tag m + 32) # replicate (fst sz) 1 @ 0 # replicate (snd sz) 1"

definition toy_save :: "image \<Rightarrow> string + bytes" where
  "toy_save img =
     Inr (if im_transparency img then toy_trns_bytes (im_mode img) (im_size img)
          else toy_bytes (im_mode img) (im_size img))"

definition toy_open :: "bytes \<Rightarrow> string + image" where
  "toy_open bs =
     (case bs of
        [] \<Rightarrow> Inl ''cannot identify image file''
      | t # rest \<Rightarrow>
          (case tag_mode t of
             None \<Rightarrow>
               (case tag_mode (t - 32) of
                  None \<Rightarrow> Inl ''cannot identify image file''
                | Some m \<Rightarrow>
                    Inr \<lparr>im_mode = m,
                         im_size = (length (takeWhile (\<lambda>b. b = 1) rest),
                                    length (dropWhile (\<lambda>b. b = 1) rest) - 1),
                         im_pixels = Decoded bs, im_transparency = True\<rparr>)
           | Some m \<Rightarrow>
               Inr \<lparr>im_mode = m,
                    im_size = (length (takeWhile (\<lambda>b. b = 1) rest),
                               length (dropWhile (\<lambda>b. b = 1) rest) - 1),
                    im_pixels = Decoded bs, im_transparency = False\<rparr>))"

definition toy_env :: env where
  "toy_env =
     \<lparr>image_open = toy_open, save_png = toy_save, convertible = (\<lambda>_ _. True),
      keeps_transparency = (\<lambda>_ _. False),
      rembg_remove = (\<lambda>b. Inr b), rembg_available = True\<rparr>"

text \<open>A model that answers every input with a 4097 x 1 RGBA file.\<close>

definition thin_model_env :: env where
  "thin_model_env =
     \<lparr>image_open = toy_open, save_png = toy_save, convertible = (\<lambda>_ _. True),
      keeps_transparency = (\<lambda>_ _. False),
      rembg_remove = (\<lambda>_. Inr (toy_bytes Mode_RGBA (4097, 1))), rembg_available = True\<rparr>"

text \<open>A model that answers every input with a 3 x 2 RGB file carrying a transparency
  entry (a PNG with a \<^verbatim>\<open>tRNS\<close> colour key).\<close>

definition keyed_model_env :: env where
  "keyed_model_env =
     \<lparr>image_open = toy_open, save_png = toy_save, convertible = (\<lambda>_ _. True),
      keeps_transparency = (\<lambda>_ _. False),
      rembg_remove = (\<lambda>_. Inr (toy_trns_bytes Mode_RGB (3, 2))), rembg_available = True\<rparr>"

definition ready_state :: app_state where
  "ready_state = \<lparr>bg_remover = Some BackgroundRemover, pipeline_calls = []\<rparr>"

section \<open>Rounding lemmas\<close>

lemma log2floor_lt2: "n < 2 \<Longrightarrow> log2floor n = 0"
  by (simp add: log2floor.simps)
lemma log2floor_ge2: "2 \<le> n \<Longrightarrow> log2floor n = Suc (log2floor (n div 2))"
  by (subst log2floor.simps) simp


















section \<open>Evaluation and codec lemmas\<close>

lemmas float_eval =
  log2floor_lt2 log2floor_ge2 ilog_def rne_div_def scale2_def round_frac_def
  py_truediv_def py_float_def float_mul_def py_int_def new_dim_def max_size_def Let_def

lemma new_size_eq: "new_size (w, h) = (new_dim (max w h) w, new_dim (max w h) h)"
  by (simp add: new_size_def new_dim_def Let_def)

lemma str_nat_lt10: "n < 10 \<Longrightarrow> str_nat n = [digit n]"
  by (simp add: str_nat.simps)

lemma str_nat_ge10: "10 \<le> n \<Longrightarrow> str_nat n = str_nat (n div 10) @ [digit (n mod 10)]"
  by (subst str_nat.simps) simp

lemma tag_mode_tag: "tag_mode (mode_tag m) = Some m"
  by (cases m) (simp_all add: tag_mode_def all_modes_def)

lemma tag_mode_trns: "tag_mode (mode_tag m + 32) = None \<and> tag_mode (mode_tag m + 32 - 32) = Some m"
  by (cases m) (simp_all add: tag_mode_def all_modes_def)

lemma takeWhile_unary:
  "takeWhile (\<lambda>b. b = (1::byte)) (replicate n 1 @ 0 # ys) = replicate n 1"
  by (induction n) simp_all

lemma dropWhile_unary:
  "dropWhile (\<lambda>b. b = (1::byte)) (replicate n 1 @ 0 # ys) = 0 # ys"
  by (induction n) simp_all

lemma toy_open_bytes:
  "toy_open (toy_bytes m sz) = Inr \<lparr>im_mode = m, im_size = sz, im_pixels = Decoded (toy_bytes m sz), im_transparency = False\<rparr>"
  unfolding toy_open_def toy_bytes_def
  by (simp only: list.case tag_mode_tag option.case takeWhile_unary dropWhile_unary) simp

lemma toy_open_trns_bytes:
  "toy_open (toy_trns_bytes m sz) =
     Inr \<lparr>im_mode = m, im_size = sz, im_pixels = Decoded (toy_trns_bytes m sz),
          im_transparency = True\<rparr>"
  unfolding toy_open_def toy_trns_bytes_def
  by (simp only: list.case tag_mode_trns option.case takeWhile_unary dropWhile_unary) simp

lemma and_then_Inr [simp]: "and_then (Inr x) f = f x"
  by (simp add: and_then_def)

lemma and_then_Inl [simp]: "and_then (Inl e) f = Inl e"
  by (simp add: and_then_def)

lemma try_block_too_large:
  "10485760 < length (body file) \<Longrightarrow>
   try_block E elapsed st file =
     (Inl (HTTPException 400
        (''File too large. Maximum size is 10MB. Got: '' @ str_nat (length (body file))
           @ '' bytes'')), st)"
  by (simp add: try_block_def Let_def)

lemma try_block_ok_size:
  "length (body file) \<le> 10485760 \<Longrightarrow>
   try_block E elapsed st file =
     (case BackgroundRemover_remove_background E (body file) of
        Inl e \<Rightarrow> Inl e
      | Inr result_png \<Rightarrow>
          Inr (Response result_png ''image/png''
            [(''Content-Disposition'',
                ''attachment; filename='' @ [CHR 0x22] @ ''bgremoved.png'' @ [CHR 0x22]),
             (''X-Processing-Time'', elapsed)]),
      st\<lparr>pipeline_calls := pipeline_calls st @ [body file]\<rparr>)"
  by (simp add: try_block_def Let_def)

lemma app_not_ready:
  "bg_remover st = None \<Longrightarrow>
   app_remove_background E elapsed st file =
     (Inl (HTTPException 503
        ''Background removal service is not available. Model not loaded.''), st)"
  by (simp add: app_remove_background_def)

lemma app_bad_type:
  "bg_remover st \<noteq> None \<Longrightarrow> content_type file \<notin> set allowed_types \<Longrightarrow>
   app_remove_background E elapsed st file =
     (Inl (HTTPException 400
        (''Invalid file type. Only JPG and PNG are supported. Got: ''
           @ str_opt (content_type file))), st)"
  by (simp add: app_remove_background_def)

lemma app_too_large:
  "bg_remover st \<noteq> None \<Longrightarrow> content_type file \<in> set allowed_types \<Longrightarrow>
   10485760 < length (body file) \<Longrightarrow>
   app_remove_background E elapsed st file =
     (Inl (HTTPException 400
        (''File too large. Maximum size is 10MB. Got: '' @ str_nat (length (body file))
           @ '' bytes'')), st)"
  by (simp add: app_remove_background_def try_block_too_large)

lemma remove_background_failure:
  "and_then (normalize_image E image_data) (segment E) = Inl e \<Longrightarrow>
   BackgroundRemover_remove_background E image_data
     = Inl (RuntimeError (''Failed to remove background: '' @ e))"
  by (simp add: BackgroundRemover_remove_background_def)

lemma remove_background_success:
  "and_then (normalize_image E image_data) (segment E) = Inr b \<Longrightarrow>
   BackgroundRemover_remove_background E image_data = Inr b"
  by (simp add: BackgroundRemover_remove_background_def)

lemma app_pipeline_failure:
  assumes "bg_remover st \<noteq> None" "content_type file \<in> set allowed_types"
    "length (body file) \<le> 10485760"
    "and_then (normalize_image E (body file)) (segment E) = Inl e"
  shows "app_remove_background E elapsed st file =
     (Inl (HTTPException 500
        (''Failed to process image: Failed to remove background: '' @ e)),
      st\<lparr>pipeline_calls := pipeline_calls st @ [body file]\<rparr>)"
  using assms
  by (simp add: app_remove_background_def try_block_ok_size remove_background_failure)

lemma app_pipeline_success:
  assumes "bg_remover st \<noteq> None" "content_type file \<in> set allowed_types"
    "length (body file) \<le> 10485760"
    "and_then (normalize_image E (body file)) (segment E) = Inr b"
  shows "app_remove_background E elapsed st file =
     (Inr (Response b ''image/png''
        [(''Content-Disposition'',
            ''attachment; filename='' @ [CHR 0x22] @ ''bgremoved.png'' @ [CHR 0x22]),
         (''X-Processing-Time'', elapsed)]),
      st\<lparr>pipeline_calls := pipeline_calls st @ [body file]\<rparr>)"
  using assms
  by (simp add: app_remove_background_def try_block_ok_size remove_background_success)


section \<open>Lemmas on the normalizer\<close>




lemma resize_if_large_small:
  assumes "max (fst (im_size img)) (snd (im_size img)) \<le> 2048"
  shows "resize_if_large img = Inr img"
proof -
  from assms have "\<not> 2048 < max (fst (im_size img)) (snd (im_size img))" by linarith
  then show ?thesis unfolding resize_if_large_def max_size_def by (simp only: if_False)
qed

lemma resize_if_large_large:
  "2048 < max (fst (im_size img)) (snd (im_size img)) \<Longrightarrow>
   resize_if_large img = resize img (new_size (im_size img))"
  by (simp add: resize_if_large_def max_size_def)

lemma resize_Inr:
  "resize img sz = Inr img' \<longleftrightarrow>
     1 \<le> fst sz \<and> 1 \<le> snd sz \<and>
     img' = img\<lparr>im_size := sz, im_pixels := Resampled (im_pixels img) sz\<rparr>"
  by (auto simp: resize_def)

lemma resize_if_large_mode:
  "resize_if_large img = Inr img' \<Longrightarrow> im_mode img' = im_mode img"
  by (auto simp: resize_if_large_def resize_def split: if_splits)


lemma index_split_RGBA:
  "im_mode img = Mode_RGBA \<Longrightarrow>
   index (Image_split img) 3 =
     Inr \<lparr>im_mode = Mode_L, im_size = im_size img, im_pixels = Band (im_pixels img) 3,
          im_transparency = im_transparency img\<rparr>"
  by (simp add: index_def Image_split_def)

lemma to_rgb_RGBA:
  "im_mode img = Mode_RGBA \<Longrightarrow>
   to_rgb E img =
     Inr \<lparr>im_mode = Mode_RGB, im_size = im_size img,
          im_pixels = Pasted (Filled (255, 255, 255)) (im_pixels img)
                        (Some (Band (im_pixels img) 3)), im_transparency = False\<rparr>"
  by (simp add: to_rgb_def index_split_RGBA paste_def Image_new_def)

lemma to_rgb_RGB: "im_mode img = Mode_RGB \<Longrightarrow> to_rgb E img = Inr img"
  by (simp add: to_rgb_def)

lemma to_rgb_other:
  "im_mode img \<noteq> Mode_RGB \<Longrightarrow> im_mode img \<noteq> Mode_RGBA \<Longrightarrow>
   to_rgb E img = convert E img Mode_RGB"
  by (simp add: to_rgb_def)

lemma convert_Inr:
  "convert E img m = Inr img' \<Longrightarrow>
   img' = img\<lparr>im_mode := m,
              im_pixels := Converted m (conversion_alpha img m) (im_pixels img),
              im_transparency := im_transparency img \<and> keeps_transparency E (im_mode img) m\<rparr>"
  by (auto simp: convert_def split: if_splits)

lemma to_rgb_result:
  assumes "to_rgb E img = Inr out"
  shows "im_mode out = Mode_RGB \<and> im_size out = im_size img"
proof -
  consider "im_mode img = Mode_RGB" | "im_mode img = Mode_RGBA"
    | "im_mode img \<noteq> Mode_RGB" "im_mode img \<noteq> Mode_RGBA" by blast
  then show ?thesis
  proof cases
    case 1
    with assms show ?thesis by (simp add: to_rgb_RGB)
  next
    case 2
    with assms show ?thesis by (auto simp: to_rgb_RGBA)
  next
    case 3
    with assms have "convert E img Mode_RGB = Inr out" by (simp add: to_rgb_other)
    from convert_Inr [OF this] show ?thesis by simp
  qed
qed

lemma normalize_open:
  "image_open E image_data = Inr img \<Longrightarrow>
   normalize_image E image_data = and_then (resize_if_large img) (to_rgb E)"
  by (simp add: normalize_image_def)


section \<open>Lemmas on the segmentation adapter\<close>

lemma to_rgba_result:
  assumes "to_rgba E output_image = Inr rgba"
  shows "im_mode rgba = Mode_RGBA \<and> im_size rgba = im_size output_image \<and>
         (im_mode output_image = Mode_RGBA \<longrightarrow> rgba = output_image) \<and>
         (im_mode output_image \<noteq> Mode_RGBA \<longrightarrow>
            im_pixels rgba =
              Converted Mode_RGBA (conversion_alpha output_image Mode_RGBA)
                (im_pixels output_image))"
proof (cases "im_mode output_image = Mode_RGBA")
  case True
  with assms show ?thesis by (simp add: to_rgba_def)
next
  case False
  with assms have "convert E output_image Mode_RGBA = Inr rgba" by (simp add: to_rgba_def)
  from convert_Inr [OF this] False show ?thesis by simp
qed

lemma and_then_Inr_iff:
  "and_then r f = Inr y \<longleftrightarrow> (\<exists>x. r = Inr x \<and> f x = Inr y)"
  by (cases r) simp_all

lemma segment_Inr:
  assumes "segment E img = Inr result_bytes"
  obtains input_bytes output_bytes output_image rgba where
    "save_png E img = Inr input_bytes" "rembg_remove E input_bytes = Inr output_bytes"
    "image_open E output_bytes = Inr output_image" "to_rgba E output_image = Inr rgba"
    "save_png E rgba = Inr result_bytes"
  using assms unfolding segment_def and_then_Inr_iff by blast




lemma png_roundtripD:
  "png_roundtrip E \<Longrightarrow> im_mode img = Mode_RGB \<or> im_mode img = Mode_RGBA \<Longrightarrow>
   save_png E img = Inr bs \<Longrightarrow>
   \<exists>img'. image_open E bs = Inr img' \<and> im_mode img' = im_mode img \<and> im_size img' = im_size img"
  unfolding png_roundtrip_def by blast

lemma conversion_alpha_no_alpha: "\<not> has_alpha m \<Longrightarrow> conversion_alpha img m = None"
  by (simp add: conversion_alpha_def)

lemma conversion_alpha_opaque:
  "has_alpha m \<Longrightarrow> \<not> has_alpha (im_mode img) \<Longrightarrow> \<not> im_transparency img \<Longrightarrow>
   conversion_alpha img m = Some Alpha_Opaque"
  by (simp add: conversion_alpha_def)

lemma toy_codec_roundtrip:
  "toy_save img = Inr bs \<Longrightarrow>
   \<exists>img'. toy_open bs = Inr img' \<and> im_mode img' = im_mode img \<and> im_size img' = im_size img"
  by (cases "im_transparency img")
    (auto simp: toy_save_def toy_open_bytes toy_open_trns_bytes)


lemma toy_roundtrip: "png_roundtrip toy_env"
  using toy_codec_roundtrip by (simp add: png_roundtrip_def toy_env_def)

lemma thin_model_roundtrip: "png_roundtrip thin_model_env"
  using toy_codec_roundtrip by (simp add: png_roundtrip_def thin_model_env_def)




section \<open>The image normalizer\<close>

text \<open>
  C1, as stated: every decodable image whose mode is not RGB but has a transparency
  channel is composited onto white. This fails for mode LA (grayscale with alpha): the
  normalizer applies the plain library conversion to RGB, and neither a white
  background nor the alpha band appears in the result.
\<close>

theorem la_image_not_composited:
  "has_alpha Mode_LA \<and> Mode_LA \<noteq> Mode_RGB \<and>
   image_open toy_env (toy_bytes Mode_LA (3, 2)) =
     Inr \<lparr>im_mode = Mode_LA, im_size = (3, 2),
          im_pixels = Decoded (toy_bytes Mode_LA (3, 2)), im_transparency = False\<rparr> \<and>
   normalize_image toy_env (toy_bytes Mode_LA (3, 2)) =
     Inr \<lparr>im_mode = Mode_RGB, im_size = (3, 2),
          im_pixels = Converted Mode_RGB None (Decoded (toy_bytes Mode_LA (3, 2))),
          im_transparency = False\<rparr>"
proof -
  have o: "image_open toy_env (toy_bytes Mode_LA (3, 2)) =
     Inr \<lparr>im_mode = Mode_LA, im_size = (3, 2),
          im_pixels = Decoded (toy_bytes Mode_LA (3, 2)), im_transparency = False\<rparr>"
    by (simp add: toy_env_def toy_open_bytes)
  have c: "convert toy_env img Mode_RGB =
     Inr (img\<lparr>im_mode := Mode_RGB, im_pixels := Converted Mode_RGB None (im_pixels img),
              im_transparency := False\<rparr>)" for img
    by (simp add: convert_def toy_env_def conversion_alpha_no_alpha has_alpha_def)
  have "normalize_image toy_env (toy_bytes Mode_LA (3, 2)) =
     Inr \<lparr>im_mode = Mode_RGB, im_size = (3, 2),
          im_pixels = Converted Mode_RGB None (Decoded (toy_bytes Mode_LA (3, 2))),
          im_transparency = False\<rparr>"
    by (simp add: normalize_open [OF o] resize_if_large_small to_rgb_other c)
  with o show ?thesis by (simp add: has_alpha_def)
qed

text \<open>
  C1, amended. After decoding and the size bound, the normalizer composites onto an opaque
  white background, weighted by the alpha band (band 3), exactly when the mode is RGBA;
  an RGB image passes unchanged; every other mode, with or without a transparency channel,
  goes through the library's conversion to RGB. Every image the normalizer returns is RGB.
\<close>

theorem rgb_coercion:
  assumes "image_open E image_data = Inr img" "resize_if_large img = Inr img'"
  shows "(im_mode img = Mode_RGBA \<longrightarrow>
            normalize_image E image_data =
              Inr \<lparr>im_mode = Mode_RGB, im_size = im_size img',
                   im_pixels = Pasted (Filled (255, 255, 255)) (im_pixels img')
                                 (Some (Band (im_pixels img') 3)), im_transparency = False\<rparr>) \<and>
         (im_mode img = Mode_RGB \<longrightarrow> normalize_image E image_data = Inr img') \<and>
         (im_mode img \<noteq> Mode_RGBA \<and> im_mode img \<noteq> Mode_RGB \<longrightarrow>
            normalize_image E image_data = convert E img' Mode_RGB) \<and>
         (\<forall>out. normalize_image E image_data = Inr out \<longrightarrow> im_mode out = Mode_RGB)"
proof -
  have m: "im_mode img' = im_mode img" using assms(2) by (rule resize_if_large_mode)
  have n: "normalize_image E image_data = to_rgb E img'"
    by (simp add: normalize_open [OF assms(1)] assms(2))
  show ?thesis
    unfolding n using m
    by (auto simp: to_rgb_RGBA to_rgb_RGB to_rgb_other dest: to_rgb_result)
qed

theorem rgb_coercion_witness:
  "normalize_image toy_env (toy_bytes Mode_RGBA (3, 2)) =
     Inr \<lparr>im_mode = Mode_RGB, im_size = (3, 2),
          im_pixels = Pasted (Filled (255, 255, 255)) (Decoded (toy_bytes Mode_RGBA (3, 2)))
                        (Some (Band (Decoded (toy_bytes Mode_RGBA (3, 2))) 3)), im_transparency = False\<rparr>"
proof -
  let ?img = "\<lparr>im_mode = Mode_RGBA, im_size = (3, 2),
               im_pixels = Decoded (toy_bytes Mode_RGBA (3, 2)), im_transparency = False\<rparr>"
  have o: "image_open toy_env (toy_bytes Mode_RGBA (3, 2)) = Inr ?img"
    by (simp add: toy_env_def toy_open_bytes)
  have r: "resize_if_large ?img = Inr ?img"
    by (simp add: resize_if_large_small)
  from rgb_coercion [OF o r] show ?thesis by simp
qed





section \<open>The segmentation adapter\<close>

text \<open>
  C5, as stated: when the model's output lacks a transparency channel, a fully opaque one
  is added. This fails for a model output in mode RGB (three bands, no alpha) that carries
  a transparency entry: the adapter's \<^verbatim>\<open>convert('RGBA')\<close> promotes the entry to the
  alpha band, so the alpha band of the returned image is not the constant 255.
\<close>

theorem keyed_output_not_opaque:
  "\<not> has_alpha Mode_RGB \<and> bands Mode_RGB = 3 \<and>
   image_open keyed_model_env (toy_trns_bytes Mode_RGB (3, 2)) =
     Inr \<lparr>im_mode = Mode_RGB, im_size = (3, 2),
          im_pixels = Decoded (toy_trns_bytes Mode_RGB (3, 2)), im_transparency = True\<rparr> \<and>
   to_rgba keyed_model_env
     \<lparr>im_mode = Mode_RGB, im_size = (3, 2),
      im_pixels = Decoded (toy_trns_bytes Mode_RGB (3, 2)), im_transparency = True\<rparr> =
     Inr \<lparr>im_mode = Mode_RGBA, im_size = (3, 2),
          im_pixels = Converted Mode_RGBA (Some Alpha_From_Transparency)
                        (Decoded (toy_trns_bytes Mode_RGB (3, 2))),
          im_transparency = False\<rparr> \<and>
   segment keyed_model_env
     \<lparr>im_mode = Mode_RGB, im_size = (3, 2), im_pixels = Filled (255, 255, 255),
      im_transparency = False\<rparr> =
     Inr (toy_bytes Mode_RGBA (3, 2))"
proof -
  have o: "image_open keyed_model_env (toy_trns_bytes Mode_RGB (3, 2)) =
     Inr \<lparr>im_mode = Mode_RGB, im_size = (3, 2),
          im_pixels = Decoded (toy_trns_bytes Mode_RGB (3, 2)), im_transparency = True\<rparr>"
    by (simp add: keyed_model_env_def toy_open_trns_bytes)
  have t: "to_rgba keyed_model_env
     \<lparr>im_mode = Mode_RGB, im_size = (3, 2),
      im_pixels = Decoded (toy_trns_bytes Mode_RGB (3, 2)), im_transparency = True\<rparr> =
     Inr \<lparr>im_mode = Mode_RGBA, im_size = (3, 2),
          im_pixels = Converted Mode_RGBA (Some Alpha_From_Transparency)
                        (Decoded (toy_trns_bytes Mode_RGB (3, 2))),
          im_transparency = False\<rparr>"
    by (simp add: to_rgba_def convert_def keyed_model_env_def conversion_alpha_def
        has_alpha_def promotes_transparency_def)
  have s: "save_png keyed_model_env img = Inr (toy_bytes (im_mode img) (im_size img))"
    if "\<not> im_transparency img" for img
    using that by (simp add: keyed_model_env_def toy_save_def)
  have r: "rembg_remove keyed_model_env b = Inr (toy_trns_bytes Mode_RGB (3, 2))" for b
    by (simp add: keyed_model_env_def)
  have "segment keyed_model_env
     \<lparr>im_mode = Mode_RGB, im_size = (3, 2), im_pixels = Filled (255, 255, 255),
      im_transparency = False\<rparr> =
     Inr (toy_bytes Mode_RGBA (3, 2))"
    by (simp add: segment_def s r o t)
  with o t show ?thesis by (simp add: has_alpha_def)
qed

text \<open>
  C5, amended. Whenever the segmentation adapter succeeds, the bytes it returns are the PNG
  encoding of an RGBA image that has the dimensions of the decoded model output,
  regardless of the model's output mode: the model output itself if that is already RGBA,
  and otherwise the library's conversion of it to RGBA. The alpha band of that conversion
  is fully opaque when the model's output has no alpha band and no transparency entry;
  otherwise it comes from the output's alpha band or transparency entry. With a PNG codec
  that keeps the mode and size of RGB and RGBA images, decoding the returned bytes gives
  a 4-band RGBA image.
\<close>

theorem adapter_output_is_rgba_png:
  assumes "segment E img = Inr result_bytes"
  shows "\<exists>input_bytes output_bytes output_image rgba.
     save_png E img = Inr input_bytes \<and> rembg_remove E input_bytes = Inr output_bytes \<and>
     image_open E output_bytes = Inr output_image \<and>
     save_png E rgba = Inr result_bytes \<and>
     im_mode rgba = Mode_RGBA \<and> im_size rgba = im_size output_image \<and>
     (im_mode output_image = Mode_RGBA \<longrightarrow> rgba = output_image) \<and>
     (im_mode output_image \<noteq> Mode_RGBA \<longrightarrow>
        im_pixels rgba =
          Converted Mode_RGBA (conversion_alpha output_image Mode_RGBA)
            (im_pixels output_image)) \<and>
     (\<not> has_alpha (im_mode output_image) \<and> \<not> im_transparency output_image \<longrightarrow>
        im_pixels rgba =
          Converted Mode_RGBA (Some Alpha_Opaque) (im_pixels output_image)) \<and>
     (png_roundtrip E \<longrightarrow>
        (\<exists>decoded. image_open E result_bytes = Inr decoded \<and>
           im_mode decoded = Mode_RGBA \<and> bands (im_mode decoded) = 4 \<and>
           im_size decoded = im_size output_image))"
proof -
  from assms obtain input_bytes output_bytes output_image rgba where
    s: "save_png E img = Inr input_bytes" "rembg_remove E input_bytes = Inr output_bytes"
    "image_open E output_bytes = Inr output_image" "to_rgba E output_image = Inr rgba"
    "save_png E rgba = Inr result_bytes"
    by (rule segment_Inr)
  note t = to_rgba_result [OF s(4)]
  have op: "im_pixels rgba = Converted Mode_RGBA (Some Alpha_Opaque) (im_pixels output_image)"
    if "\<not> has_alpha (im_mode output_image) \<and> \<not> im_transparency output_image"
  proof -
    from that have "im_mode output_image \<noteq> Mode_RGBA" by (auto simp: has_alpha_def)
    moreover from that
    have "conversion_alpha output_image Mode_RGBA = Some Alpha_Opaque"
      by (intro conversion_alpha_opaque) (simp_all add: has_alpha_def)
    ultimately show ?thesis using t by simp
  qed
  have dec: "\<exists>decoded. image_open E result_bytes = Inr decoded \<and>
           im_mode decoded = Mode_RGBA \<and> bands (im_mode decoded) = 4 \<and>
           im_size decoded = im_size output_image" if "png_roundtrip E"
  proof -
    from t have "im_mode rgba = Mode_RGB \<or> im_mode rgba = Mode_RGBA" by simp
    from png_roundtripD [OF that this s(5)] obtain d where
      "image_open E result_bytes = Inr d" "im_mode d = im_mode rgba" "im_size d = im_size rgba"
      by blast
    with t show ?thesis by simp
  qed
  from s t op dec show ?thesis by blast
qed

theorem adapter_output_is_rgba_png_witness:
  "segment toy_env
     \<lparr>im_mode = Mode_RGB, im_size = (3, 2), im_pixels = Filled (255, 255, 255),
      im_transparency = False\<rparr>
     = Inr (toy_bytes Mode_RGBA (3, 2)) \<and>
   (\<exists>rgba. save_png toy_env rgba = Inr (toy_bytes Mode_RGBA (3, 2)) \<and>
      im_pixels rgba =
        Converted Mode_RGBA (Some Alpha_Opaque) (Decoded (toy_bytes Mode_RGB (3, 2)))) \<and>
   (\<exists>decoded. image_open toy_env (toy_bytes Mode_RGBA (3, 2)) = Inr decoded \<and>
      im_mode decoded = Mode_RGBA \<and> bands (im_mode decoded) = 4)"
proof -
  let ?img = "\<lparr>im_mode = Mode_RGB, im_size = (3, 2), im_pixels = Filled (255, 255, 255),
               im_transparency = False\<rparr>"
  let ?out = "\<lparr>im_mode = Mode_RGB, im_size = (3, 2),
               im_pixels = Decoded (toy_bytes Mode_RGB (3, 2)), im_transparency = False\<rparr>"
  have sv: "save_png toy_env ?img = Inr (toy_bytes Mode_RGB (3, 2))"
    by (simp add: toy_env_def toy_save_def)
  have rm: "rembg_remove toy_env b = Inr b" for b by (simp add: toy_env_def)
  have o: "image_open toy_env (toy_bytes Mode_RGB (3, 2)) = Inr ?out"
    by (simp add: toy_env_def toy_open_bytes)
  have s: "segment toy_env ?img = Inr (toy_bytes Mode_RGBA (3, 2))"
    by (simp add: segment_def sv rm o to_rgba_def convert_def)
      (simp add: toy_env_def toy_save_def)
  from adapter_output_is_rgba_png [OF s] obtain input_bytes output_bytes output_image rgba
    where f: "save_png toy_env ?img = Inr input_bytes"
      "rembg_remove toy_env input_bytes = Inr output_bytes"
      "image_open toy_env output_bytes = Inr output_image"
      "save_png toy_env rgba = Inr (toy_bytes Mode_RGBA (3, 2))"
      "\<not> has_alpha (im_mode output_image) \<and> \<not> im_transparency output_image \<longrightarrow>
        im_pixels rgba =
          Converted Mode_RGBA (Some Alpha_Opaque) (im_pixels output_image)"
      "png_roundtrip toy_env \<longrightarrow>
        (\<exists>decoded. image_open toy_env (toy_bytes Mode_RGBA (3, 2)) = Inr decoded \<and>
           im_mode decoded = Mode_RGBA \<and> bands (im_mode decoded) = 4 \<and>
           im_size decoded = im_size output_image)"
    by blast
  from f(1) sv have "input_bytes = toy_bytes Mode_RGB (3, 2)" by simp
  with f(2) rm have "output_bytes = toy_bytes Mode_RGB (3, 2)" by simp
  with f(3) o have oi: "output_image = ?out" by simp
  with f(5) have "im_pixels rgba =
      Converted Mode_RGBA (Some Alpha_Opaque) (Decoded (toy_bytes Mode_RGB (3, 2)))"
    by (simp add: has_alpha_def)
  with f(4) have 2: "\<exists>rgba. save_png toy_env rgba = Inr (toy_bytes Mode_RGBA (3, 2)) \<and>
      im_pixels rgba =
        Converted Mode_RGBA (Some Alpha_Opaque) (Decoded (toy_bytes Mode_RGB (3, 2)))"
    by blast
  from f(6) toy_roundtrip
  have 3: "\<exists>decoded. image_open toy_env (toy_bytes Mode_RGBA (3, 2)) = Inr decoded \<and>
      im_mode decoded = Mode_RGBA \<and> bands (im_mode decoded) = 4"
    by blast
  from s 2 3 show ?thesis by blast
qed




section \<open>Degenerate aspect ratios\<close>

text \<open>
  C10. The new size is computed by truncation, and for a 4097 x 1 image it is (2048, 0):
  the resize raises, normalization fails with Pillow's message, and a request that
  uploads such an image gets status 500. In general the resize branch succeeds exactly
  when both computed sides are at least 1.
\<close>

theorem thin_image_fails:
  "new_size (4097, 1) = (2048, 0) \<and>
   (image_open E image_data = Inr img \<and> im_size img = (4097, 1) \<longrightarrow>
      normalize_image E image_data = Inl ''height and width must be > 0'') \<and>
   (bg_remover st \<noteq> None \<and> content_type file \<in> set allowed_types \<and>
    length (body file) \<le> 10 * 1024 * 1024 \<and>
    image_open E (body file) = Inr img \<and> im_size img = (4097, 1) \<longrightarrow>
      fst (app_remove_background E elapsed st file) =
        Inl (HTTPException 500
          ''Failed to process image: Failed to remove background: height and width must be > 0'')) \<and>
   (2048 < max (fst (im_size img2)) (snd (im_size img2)) \<longrightarrow>
      ((\<exists>img'. resize_if_large img2 = Inr img') \<longleftrightarrow>
         1 \<le> fst (new_size (im_size img2)) \<and> 1 \<le> snd (new_size (im_size img2))))"
proof -
  have ns: "new_size (4097, 1) = (2048, 0)"
    by (simp add: new_size_eq float_eval)
  then have ns': "new_size (4097, Suc 0) = (2048, 0)" by simp
  have n: "normalize_image E d = Inl ''height and width must be > 0''"
    if "image_open E d = Inr img" "im_size img = (4097, 1)" for d
    using that by (simp add: normalize_open resize_if_large_large ns' resize_def)
  have a: "fst (app_remove_background E elapsed st file) =
        Inl (HTTPException 500
          ''Failed to process image: Failed to remove background: height and width must be > 0'')"
    if "bg_remover st \<noteq> None" "content_type file \<in> set allowed_types"
      "length (body file) \<le> 10 * 1024 * 1024"
      "image_open E (body file) = Inr img" "im_size img = (4097, 1)"
  proof -
    from n [OF that(4,5)]
    have "and_then (normalize_image E (body file)) (segment E)
            = Inl ''height and width must be > 0''" by simp
    with that(1,2,3) show ?thesis by (simp add: app_pipeline_failure)
  qed
  have r: "(\<exists>img'. resize_if_large img2 = Inr img') \<longleftrightarrow>
         1 \<le> fst (new_size (im_size img2)) \<and> 1 \<le> snd (new_size (im_size img2))"
    if "2048 < max (fst (im_size img2)) (snd (im_size img2))"
    using that by (simp add: resize_if_large_large resize_Inr)
  from ns n a r show ?thesis by blast
qed

theorem thin_image_fails_witness:
  "fst (app_remove_background toy_env ''0.00'' ready_state
          \<lparr>content_type = Some ''image/png'', filename = Some ''line.png'',
           body = toy_bytes Mode_RGB (4097, 1)\<rparr>)
     = Inl (HTTPException 500
         ''Failed to process image: Failed to remove background: height and width must be > 0'')"
proof -
  have o: "image_open toy_env (toy_bytes Mode_RGB (4097, 1)) =
     Inr \<lparr>im_mode = Mode_RGB, im_size = (4097, 1),
          im_pixels = Decoded (toy_bytes Mode_RGB (4097, 1)), im_transparency = False\<rparr>"
    by (simp add: toy_env_def toy_open_bytes)
  have l: "length (toy_bytes Mode_RGB (4097, 1)) \<le> 10 * 1024 * 1024"
    by (simp add: toy_bytes_def)
  from thin_image_fails
    [of toy_env "toy_bytes Mode_RGB (4097, 1)"
        "\<lparr>im_mode = Mode_RGB, im_size = (4097, 1),
          im_pixels = Decoded (toy_bytes Mode_RGB (4097, 1)), im_transparency = False\<rparr>"
        ready_state
        "\<lparr>content_type = Some ''image/png'', filename = Some ''line.png'',
          body = toy_bytes Mode_RGB (4097, 1)\<rparr>" "''0.00''"] o l
  show ?thesis by (simp add: ready_state_def allowed_types_def)
qed


section \<open>The request handler\<close>

text \<open>
  C3. A request to POST /remove-bg whose declared content type is not one of image/jpeg,
  image/png, image/jpg never reaches the normalizer or the segmentation pipeline: the
  handler leaves the record of pipeline calls as it was. When the model is loaded, the
  handler raises an HTTP error with status 400 whose message ends with the rejected
  content type.
\<close>

theorem invalid_content_type_rejected:
  assumes "content_type file \<notin> set allowed_types"
  shows "snd (app_remove_background E elapsed st file) = st \<and>
         (bg_remover st \<noteq> None \<longrightarrow>
            fst (app_remove_background E elapsed st file) =
              Inl (HTTPException 400
                (''Invalid file type. Only JPG and PNG are supported. Got: ''
                   @ str_opt (content_type file))))"
proof (cases "bg_remover st = None")
  case True
  then show ?thesis by (simp add: app_not_ready)
next
  case False
  with assms show ?thesis by (simp add: app_bad_type)
qed

theorem invalid_content_type_rejected_witness:
  "snd (app_remove_background toy_env ''0.00'' ready_state
          \<lparr>content_type = Some ''text/plain'', filename = Some ''notes.txt'', body = []\<rparr>)
     = ready_state \<and>
   fst (app_remove_background toy_env ''0.00'' ready_state
          \<lparr>content_type = Some ''text/plain'', filename = Some ''notes.txt'', body = []\<rparr>)
     = Inl (HTTPException 400
         ''Invalid file type. Only JPG and PNG are supported. Got: text/plain'')"
  using invalid_content_type_rejected
    [of "\<lparr>content_type = Some ''text/plain'', filename = Some ''notes.txt'', body = []\<rparr>"
        toy_env "''0.00''" ready_state]
  by (simp add: allowed_types_def ready_state_def str_opt_def)

text \<open>
  C4. When the model is loaded and the content type is allowed, a body longer than
  10,485,760 bytes makes the handler raise an HTTP error with status 400 whose message
  contains the actual byte length in decimal, and the pipeline is not called.
\<close>

theorem oversized_body_rejected:
  assumes "bg_remover st \<noteq> None" "content_type file \<in> set allowed_types"
    "10 * 1024 * 1024 < length (body file)"
  shows "app_remove_background E elapsed st file =
     (Inl (HTTPException 400
        (''File too large. Maximum size is 10MB. Got: '' @ str_nat (length (body file))
           @ '' bytes'')), st)"
  using assms by (simp add: app_too_large)

theorem oversized_body_rejected_witness:
  "app_remove_background toy_env ''0.00'' ready_state
     \<lparr>content_type = Some ''image/png'', filename = Some ''big.png'',
      body = replicate 10485761 0\<rparr>
   = (Inl (HTTPException 400 ''File too large. Maximum size is 10MB. Got: 10485761 bytes''),
      ready_state)"
proof -
  have s: "str_nat 10485761 = ''10485761''"
    by (simp add: str_nat_lt10 str_nat_ge10 digit_def)
  show ?thesis
    using oversized_body_rejected
      [of ready_state
          "\<lparr>content_type = Some ''image/png'', filename = Some ''big.png'',
            body = replicate 10485761 0\<rparr>"
          toy_env "''0.00''"]
    by (simp add: allowed_types_def ready_state_def s)
qed

text \<open>
  C6. While the global model handle is absent (as it is initially and after shutdown), every
  POST /remove-bg raises status 503 with the message "Background removal service is not
  available. Model not loaded." before any validation or processing; and 503 is raised in
  no other state, so only a loaded model serves requests.
\<close>

theorem not_ready_is_503:
  "(bg_remover st = None \<longrightarrow>
      app_remove_background E elapsed st file =
        (Inl (HTTPException 503
           ''Background removal service is not available. Model not loaded.''), st)) \<and>
   (status_code (fst (app_remove_background E elapsed st file)) = 503
      \<longleftrightarrow> bg_remover st = None) \<and>
   bg_remover initial_state = None \<and>
   bg_remover (shutdown_event st) = None"
proof -
  have "status_code (fst (app_remove_background E elapsed st file)) \<noteq> 503"
    if r: "bg_remover st \<noteq> None"
  proof (cases "content_type file \<in> set allowed_types")
    case False
    with r show ?thesis by (simp add: app_bad_type status_code_def)
  next
    case t: True
    show ?thesis
    proof (cases "10485760 < length (body file)")
      case True
      with r t show ?thesis by (simp add: app_too_large status_code_def)
    next
      case False
      then have l: "length (body file) \<le> 10485760" by simp
      show ?thesis
      proof (cases "and_then (normalize_image E (body file)) (segment E)")
        case (Inl e)
        from app_pipeline_failure [OF r t l Inl] show ?thesis by (simp add: status_code_def)
      next
        case (Inr b)
        from app_pipeline_success [OF r t l Inr] show ?thesis by (simp add: status_code_def)
      qed
    qed
  qed
  moreover have "status_code (fst (app_remove_background E elapsed st file)) = 503"
    if "bg_remover st = None"
    using that by (simp add: app_not_ready status_code_def)
  ultimately have "status_code (fst (app_remove_background E elapsed st file)) = 503
      \<longleftrightarrow> bg_remover st = None"
    by blast
  then show ?thesis
    by (simp add: app_not_ready initial_state_def shutdown_event_def)
qed

theorem not_ready_is_503_witness:
  "app_remove_background toy_env ''0.00'' initial_state
     \<lparr>content_type = Some ''image/png'', filename = Some ''cat.png'',
      body = toy_bytes Mode_RGB (3, 2)\<rparr>
   = (Inl (HTTPException 503
        ''Background removal service is not available. Model not loaded.''), initial_state)"
  using not_ready_is_503
    [of initial_state toy_env "''0.00''"
        "\<lparr>content_type = Some ''image/png'', filename = Some ''cat.png'',
          body = toy_bytes Mode_RGB (3, 2)\<rparr>"]
  by (simp add: initial_state_def)


text \<open>
  C7. For a request that passes validation (model loaded, allowed content type, body within
  the limit), every failure of normalization or segmentation, whose description is \<open>e\<close>,
  reaches the client as status 500 with the message "Failed to process image: Failed to
  remove background: " followed by \<open>e\<close>. An \<^verbatim>\<open>HTTPException\<close> raised inside the
  \<^verbatim>\<open>try\<close> block is re-raised with its status code and message unchanged, and a request
  that fails validation never gets status 500.
\<close>

theorem failure_mapping:
  "(bg_remover st \<noteq> None \<and> content_type file \<in> set allowed_types \<and>
    length (body file) \<le> 10 * 1024 * 1024 \<and>
    and_then (normalize_image E (body file)) (segment E) = Inl e \<longrightarrow>
      fst (app_remove_background E elapsed st file) =
        Inl (HTTPException 500
          (''Failed to process image: Failed to remove background: '' @ e))) \<and>
   (bg_remover st \<noteq> None \<and> content_type file \<in> set allowed_types \<and>
    try_block E elapsed st file = (Inl (HTTPException code d), st') \<longrightarrow>
      app_remove_background E elapsed st file = (Inl (HTTPException code d), st')) \<and>
   (status_code (fst (app_remove_background E elapsed st file)) = 500 \<longrightarrow>
      bg_remover st \<noteq> None \<and> content_type file \<in> set allowed_types \<and>
      length (body file) \<le> 10 * 1024 * 1024)"
proof (intro conjI impI)
  assume "bg_remover st \<noteq> None \<and> content_type file \<in> set allowed_types \<and>
    length (body file) \<le> 10 * 1024 * 1024 \<and>
    and_then (normalize_image E (body file)) (segment E) = Inl e"
  then show "fst (app_remove_background E elapsed st file) =
        Inl (HTTPException 500
          (''Failed to process image: Failed to remove background: '' @ e))"
    by (simp add: app_pipeline_failure)
next
  assume "bg_remover st \<noteq> None \<and> content_type file \<in> set allowed_types \<and>
    try_block E elapsed st file = (Inl (HTTPException code d), st')"
  then show "app_remove_background E elapsed st file = (Inl (HTTPException code d), st')"
    by (cases "bg_remover st") (simp_all add: app_remove_background_def)
next
  assume s: "status_code (fst (app_remove_background E elapsed st file)) = 500"
  show "bg_remover st \<noteq> None"
  proof
    assume "bg_remover st = None"
    with s show False by (simp add: app_not_ready status_code_def)
  qed
  then have r: "bg_remover st \<noteq> None" .
  show t: "content_type file \<in> set allowed_types"
  proof (rule ccontr)
    assume "content_type file \<notin> set allowed_types"
    with s r show False by (simp add: app_bad_type status_code_def)
  qed
  show "length (body file) \<le> 10 * 1024 * 1024"
  proof (rule ccontr)
    assume "\<not> length (body file) \<le> 10 * 1024 * 1024"
    then have "10485760 < length (body file)" by simp
    with s r t show False by (simp add: app_too_large status_code_def)
  qed
qed

theorem failure_mapping_witness:
  "fst (app_remove_background toy_env ''0.00'' ready_state
          \<lparr>content_type = Some ''image/png'', filename = Some ''blob.png'', body = [0, 7]\<rparr>)
     = Inl (HTTPException 500
         ''Failed to process image: Failed to remove background: cannot identify image file'')
   \<and> app_remove_background toy_env ''0.00'' ready_state
        \<lparr>content_type = Some ''image/png'', filename = Some ''big.png'',
         body = replicate 10485761 0\<rparr>
     = (Inl (HTTPException 400
          (''File too large. Maximum size is 10MB. Got: '' @ str_nat 10485761 @ '' bytes'')),
        ready_state)"
proof -
  have o: "toy_open [0, 7] = Inl ''cannot identify image file''"
    by (simp add: toy_open_def tag_mode_def all_modes_def)
  have n: "and_then (normalize_image toy_env [0, 7]) (segment toy_env)
             = Inl ''cannot identify image file''"
    by (simp add: normalize_image_def toy_env_def o)
  have 1: "fst (app_remove_background toy_env ''0.00'' ready_state
          \<lparr>content_type = Some ''image/png'', filename = Some ''blob.png'', body = [0, 7]\<rparr>)
     = Inl (HTTPException 500
         ''Failed to process image: Failed to remove background: cannot identify image file'')"
    using failure_mapping
      [of ready_state
          "\<lparr>content_type = Some ''image/png'', filename = Some ''blob.png'', body = [0, 7]\<rparr>"
          toy_env "''cannot identify image file''" "''0.00''"]
    by (simp add: ready_state_def allowed_types_def n)
  have 2: "app_remove_background toy_env ''0.00'' ready_state
        \<lparr>content_type = Some ''image/png'', filename = Some ''big.png'',
         body = replicate 10485761 0\<rparr>
     = (Inl (HTTPException 400
          (''File too large. Maximum size is 10MB. Got: '' @ str_nat 10485761 @ '' bytes'')),
        ready_state)"
    using failure_mapping
      [of ready_state
          "\<lparr>content_type = Some ''image/png'', filename = Some ''big.png'',
            body = replicate 10485761 0\<rparr>"
          toy_env _ "''0.00''" 400
          "''File too large. Maximum size is 10MB. Got: '' @ str_nat 10485761 @ '' bytes''"
          ready_state]
    by (simp add: ready_state_def allowed_types_def try_block_too_large)
  from 1 2 show ?thesis ..
qed

text \<open>
  C8. GET /health returns, in every state, a JSON body (sent with status 200) with
  \<open>status = healthy\<close>, the fixed service name and \<open>model_loaded\<close>, which is true exactly
  when the model handle is present: false in the initial state and after shutdown, true
  after a successful start-up. The handler reads the state only: it takes no environment,
  so it cannot call the model, and it does not change the state.
\<close>

theorem health_check_reports_model:
  "health_check st =
     JSONResponse
       [(''status'', JString ''healthy''),
        (''model_loaded'', JBool (bg_remover st \<noteq> None)),
        (''service'', JString ''u2net-background-removal'')] \<and>
   status_code (Inr (health_check st)) = 200 \<and>
   health_check initial_state =
     JSONResponse
       [(''status'', JString ''healthy''), (''model_loaded'', JBool False),
        (''service'', JString ''u2net-background-removal'')] \<and>
   (startup_event E initial_state = Inr st' \<longrightarrow>
      health_check st' =
        JSONResponse
          [(''status'', JString ''healthy''), (''model_loaded'', JBool True),
           (''service'', JString ''u2net-background-removal'')]) \<and>
   health_check (shutdown_event st) =
     JSONResponse
       [(''status'', JString ''healthy''), (''model_loaded'', JBool False),
        (''service'', JString ''u2net-background-removal'')]"
proof -
  have "bg_remover st' \<noteq> None" if "startup_event E initial_state = Inr st'"
    using that
    by (cases "BackgroundRemover_init E") (auto simp: startup_event_def)
  then show ?thesis
    by (simp add: health_check_def status_code_def initial_state_def shutdown_event_def)
qed

theorem health_check_reports_model_witness:
  "startup_event toy_env initial_state = Inr ready_state \<and>
   health_check ready_state =
     JSONResponse
       [(''status'', JString ''healthy''), (''model_loaded'', JBool True),
        (''service'', JString ''u2net-background-removal'')]"
proof -
  have s: "startup_event toy_env initial_state = Inr ready_state"
    by (simp add: startup_event_def BackgroundRemover_init_def toy_env_def toy_save_def
        initial_state_def ready_state_def)
  from health_check_reports_model [of ready_state toy_env ready_state] s
  have "health_check ready_state =
     JSONResponse
       [(''status'', JString ''healthy''), (''model_loaded'', JBool True),
        (''service'', JString ''u2net-background-removal'')]"
    by blast
  with s show ?thesis by blast
qed

end
